theory Spec2Isabelle
  imports Complex_Main "HOL-Library.Word" "HOL-Library.Char_ord" "HOL-Library.List_Lexorder"
begin

section \<open>JavaScript values\<close>

text \<open>
  Numbers are exact reals plus \<open>NaN\<close>: IEEE-754 rounding (which sets in above \<open>2^53\<close>)
  and the two infinities are outside the model. Strings are byte strings holding the
  UTF-8 encoding of the JavaScript string, so \<open>TextEncoder.encode\<close> and
  \<open>ethers.toUtf8Bytes\<close> read the characters off as bytes; on ASCII keys the order of
  \<open>Array.prototype.sort\<close> is the lexicographic order on these bytes. An object is the list
  of its own enumerable properties in insertion order, with distinct keys.
\<close>

datatype number = Num real | NaN

datatype jsval =
    JUndefined
  | JNull
  | JBool bool
  | JNum number
  | JStr string
  | JArr "jsval list"
  | JObj "(string \<times> jsval) list"

type_synonym obj = "(string \<times> jsval) list"

type_synonym byte = "8 word"

text \<open>Every \<open>throw\<close> of the sources, and every failure of a collaborator, is a value.\<close>

datatype error =
    NoDefaultRegistries number
  | InvalidAgentId
  | InvalidAgentIdInPrepare
  | UnsupportedSigner
  | RangeError
  | TypeError
  | HttpStatus nat
  | GatewaysFailed
  | External string

subsection \<open>Numbers\<close>

definition is_integer :: "real \<Rightarrow> bool" where
  "is_integer x = (of_int \<lfloor>x\<rfloor> = x)"

text \<open>\<open>BigInt(x)\<close> of a number: a \<open>RangeError\<close> unless the number is an integer.\<close>

definition BigInt :: "number \<Rightarrow> error + int" where
  "BigInt x =
     (case x of
        NaN \<Rightarrow> Inl RangeError
      | Num r \<Rightarrow> if is_integer r then Inr \<lfloor>r\<rfloor> else Inl RangeError)"

text \<open>\<open>Math.round\<close>: the nearest integer, a tie going up.\<close>

definition Math_round :: "number \<Rightarrow> number" where
  "Math_round x = (case x of NaN \<Rightarrow> NaN | Num r \<Rightarrow> Num (of_int \<lfloor>r + 1 / 2\<rfloor>))"

text \<open>Truthiness, as \<open>!x\<close>, \<open>x || y\<close> and \<open>x && y\<close> read it.\<close>

definition truthy :: "jsval \<Rightarrow> bool" where
  "truthy v =
     (case v of
        JUndefined \<Rightarrow> False
      | JNull \<Rightarrow> False
      | JBool b \<Rightarrow> b
      | JNum NaN \<Rightarrow> False
      | JNum (Num r) \<Rightarrow> r \<noteq> 0
      | JStr s \<Rightarrow> s \<noteq> []
      | JArr _ \<Rightarrow> True
      | JObj _ \<Rightarrow> True)"

subsection \<open>Strings\<close>

text \<open>\<open>s.split(c)\<close> for a one-character separator: never the empty list.\<close>

fun str_split :: "char \<Rightarrow> string \<Rightarrow> string list" where
  "str_split c [] = [[]]"
| "str_split c (x # xs) =
     (if x = c then [] # str_split c xs
      else (case str_split c xs of
              [] \<Rightarrow> [[x]]
            | p # ps \<Rightarrow> (x # p) # ps))"

definition startsWith :: "string \<Rightarrow> string \<Rightarrow> bool" where
  "startsWith s p = (take (length p) s = p)"

text \<open>\<open>s.replace(/\/$/, '')\<close>: one slash at the very end goes.\<close>

definition stripTrailingSlash :: "string \<Rightarrow> string" where
  "stripTrailingSlash s = (if s \<noteq> [] \<and> last s = CHR ''/'' then butlast s else s)"

definition is_digit :: "char \<Rightarrow> bool" where
  "is_digit c = (CHR ''0'' \<le> c \<and> c \<le> CHR ''9'')"

definition digit_val :: "char \<Rightarrow> nat" where
  "digit_val c = of_char c - 48"

definition is_space :: "char \<Rightarrow> bool" where
  "is_space c = (c \<in> set [CHR '' '', CHR 0x09, CHR 0x0A, CHR 0x0B, CHR 0x0C, CHR 0x0D])"

definition digits_val :: "string \<Rightarrow> nat" where
  "digits_val ds = foldl (\<lambda>a d. 10 * a + digit_val d) 0 ds"

text \<open>
  \<open>parseInt(s, 10)\<close>: leading white space goes, then an optional sign, then the longest
  run of decimal digits; \<open>NaN\<close> when that run is empty. What follows the digits is
  ignored. White space is the ASCII white space.
\<close>

definition parseInt :: "string \<Rightarrow> number" where
  "parseInt s =
     (let t = dropWhile is_space s;
          neg = (case t of [] \<Rightarrow> False | c # _ \<Rightarrow> c = CHR ''-'');
          u = (case t of [] \<Rightarrow> [] | c # r \<Rightarrow> if c = CHR ''-'' \<or> c = CHR ''+'' then r else t);
          ds = takeWhile is_digit u
      in if ds = [] then NaN
         else if neg then Num (- real (digits_val ds))
         else Num (real (digits_val ds)))"

text \<open>Decimal digits of a natural number, as \<open>String(n)\<close> prints an integer.\<close>

definition digit_char :: "nat \<Rightarrow> char" where
  "digit_char d = ''0123456789'' ! d"

fun decimal :: "nat \<Rightarrow> string" where
  "decimal n = (if n < 10 then [digit_char n] else decimal (n div 10) @ [digit_char (n mod 10)])"

declare decimal.simps [simp del]

subsection \<open>Bytes and hex strings\<close>

text \<open>\<open>ethers.hexlify\<close> and \<open>ethers.getBytes\<close> on hex strings.\<close>

definition hex_char :: "nat \<Rightarrow> char" where
  "hex_char d = ''0123456789abcdef'' ! d"

definition hex_byte :: "byte \<Rightarrow> string" where
  "hex_byte b = [hex_char (unat b div 16), hex_char (unat b mod 16)]"

definition hexlify :: "byte list \<Rightarrow> string" where
  "hexlify bs = ''0x'' @ concat (map hex_byte bs)"

definition unhex_char :: "char \<Rightarrow> nat option" where
  "unhex_char c =
     (if CHR ''0'' \<le> c \<and> c \<le> CHR ''9'' then Some (of_char c - 48)
      else if CHR ''a'' \<le> c \<and> c \<le> CHR ''f'' then Some (of_char c - 87)
      else if CHR ''A'' \<le> c \<and> c \<le> CHR ''F'' then Some (of_char c - 55)
      else None)"

fun unhex_pairs :: "string \<Rightarrow> byte list option" where
  "unhex_pairs [] = Some []"
| "unhex_pairs [c] = None"
| "unhex_pairs (c # d # r) =
     (case (unhex_char c, unhex_char d, unhex_pairs r) of
        (Some h, Some l, Some bs) \<Rightarrow> Some (of_nat (16 * h + l) # bs)
      | _ \<Rightarrow> None)"

definition getBytes :: "string \<Rightarrow> byte list option" where
  "getBytes s =
     (case s of
        c # d # r \<Rightarrow> if c = CHR ''0'' \<and> d = CHR ''x'' then unhex_pairs r else None
      | _ \<Rightarrow> None)"

subsection \<open>Objects\<close>

text \<open>
  \<open>o[k] = v\<close> keeps the place of a key that is there and appends a new one;
  \<open>Object.assign\<close> does so for every property of its source, in order.
\<close>

fun obj_set :: "string \<Rightarrow> jsval \<Rightarrow> obj \<Rightarrow> obj" where
  "obj_set k v [] = [(k, v)]"
| "obj_set k v ((k', v') # r) = (if k = k' then (k, v) # r else (k', v') # obj_set k v r)"

definition obj_get :: "obj \<Rightarrow> string \<Rightarrow> jsval" where
  "obj_get ob k = (case map_of ob k of None \<Rightarrow> JUndefined | Some v \<Rightarrow> v)"

definition Object_assign :: "obj \<Rightarrow> obj \<Rightarrow> obj" where
  "Object_assign target source = foldl (\<lambda>t (k, v). obj_set k v t) target source"

definition Object_keys :: "obj \<Rightarrow> string list" where
  "Object_keys ob = map fst ob"

section \<open>Library primitives\<close>

text \<open>
  What the sources take from ethers and from the JavaScript runtime without defining it
  is a parameter: the ABI coder, Keccak-256, the construction of a wallet from a private
  key, the printing of a number that is not an integer below \<open>10^21\<close>, and \<open>Number(v)\<close>
  of a string, an array or an object. A wallet is its address and its \<open>signMessage\<close>,
  the personal-message signing of ethers (the one that prefixes the message).
\<close>

datatype abi_value = Uint256 int | Address string

record wallet =
  address :: string
  signMessage :: "byte list \<Rightarrow> error + byte list"

record runtime =
  numberToStringOther :: "real \<Rightarrow> string"
  toNumberOther :: "jsval \<Rightarrow> number"
  abiEncode :: "abi_value list \<Rightarrow> error + byte list"
  keccak256 :: "byte list \<Rightarrow> byte list"
  walletFromKey :: "string \<Rightarrow> error + wallet"

text \<open>\<open>Number(v)\<close>.\<close>

definition toNumber :: "runtime \<Rightarrow> jsval \<Rightarrow> number" where
  "toNumber rt v =
     (case v of
        JNum n \<Rightarrow> n
      | JUndefined \<Rightarrow> NaN
      | JNull \<Rightarrow> Num 0
      | JBool b \<Rightarrow> Num (if b then 1 else 0)
      | _ \<Rightarrow> toNumberOther rt v)"

text \<open>\<open>String(x)\<close> of a number, as template strings and \<open>JSON.stringify\<close> print it.\<close>

definition numberToString :: "runtime \<Rightarrow> number \<Rightarrow> string" where
  "numberToString rt x =
     (case x of
        NaN \<Rightarrow> ''NaN''
      | Num r \<Rightarrow>
          if is_integer r \<and> \<bar>r\<bar> < 10 ^ 21
          then (if r < 0 then ''-'' else '''') @ decimal (nat \<bar>\<lfloor>r\<rfloor>\<bar>)
          else numberToStringOther rt r)"

section \<open>helpers/execution.ts\<close>

subsection \<open>Collaborators and parameters\<close>

text \<open>
  The clock, the reputation registry (its read, its \<open>giveFeedback\<close> transaction and the
  receipt the transaction's \<open>wait\<close> gives) and Pinata's \<open>uploadJson\<close> are the world the
  pipeline runs in.
\<close>

type_synonym registry_read = "int \<Rightarrow> string \<Rightarrow> error + nat"

record tx =
  hash :: string
  wait :: "error + nat"

record submission =
  sub_tokenId :: int
  sub_score :: number
  sub_tag1 :: string
  sub_tag2 :: string
  sub_feedbackUri :: string
  sub_feedbackHash :: string
  sub_feedbackAuth :: "byte list"

record world =
  nowMs :: nat
  nowIso :: string
  getLastIndex :: registry_read
  uploadJson :: "string \<Rightarrow> obj \<Rightarrow> error + string"
  giveFeedbackTx :: "submission \<Rightarrow> error + tx"

record FeedbackParams =
  fp_agentId :: string
  fp_score :: "number option"
  fp_tags :: "string list option"
  fp_text :: "string option"
  fp_capability :: "string option"
  fp_name :: "string option"
  fp_skill :: "string option"
  fp_task :: "string option"
  fp_context :: "obj option"
  fp_proofOfPayment :: "obj option"
  fp_extra :: "obj option"

record ContractConfig =
  cc_chainId :: number
  cc_rpcUrl :: string
  cc_pinataJwt :: "string option"
  cc_pinataGateway :: "string option"

datatype signer = KeyString string | EthersWallet wallet | OtherSigner

record feedback_result =
  res_transactionHash :: string
  res_blockNumber :: nat
  res_feedbackIndex :: number
  res_feedbackFile :: obj
  res_feedbackUri :: string

text \<open>\<open>DEFAULT_REGISTRIES\<close> of helpers/contracts.ts.\<close>

definition DEFAULT_REGISTRIES :: "(real \<times> (string \<times> string) list) list" where
  "DEFAULT_REGISTRIES =
     [(11155111,
        [(''IDENTITY'', ''0x5f63c5784DFE968f06d5e6ba16cB6018163827Be''),
         (''REPUTATION'', ''0xa3e1FF3Dc554233466a0095ED85fd88965362B7A''),
         (''VALIDATION'', ''0x17EFDCdDED2E6B4A30Df358F3BB84B12673d025E'')]),
      (84532,
        [(''IDENTITY'', ''0x5f63c5784DFE968f06d5e6ba16cB6018163827Be''),
         (''REPUTATION'', ''0xa3e1FF3Dc554233466a0095ED85fd88965362B7A''),
         (''VALIDATION'', ''0x17EFDCdDED2E6B4A30Df358F3BB84B12673d025E'')]),
      (59141,
        [(''IDENTITY'', ''0x5f63c5784DFE968f06d5e6ba16cB6018163827Be''),
         (''REPUTATION'', ''0xa3e1FF3Dc554233466a0095ED85fd88965362B7A''),
         (''VALIDATION'', ''0x17EFDCdDED2E6B4A30Df358F3BB84B12673d025E'')]),
      (80002,
        [(''IDENTITY'', ''0x5f63c5784DFE968f06d5e6ba16cB6018163827Be''),
         (''REPUTATION'', ''0xa3e1FF3Dc554233466a0095ED85fd88965362B7A''),
         (''VALIDATION'', ''0x17EFDCdDED2E6B4A30Df358F3BB84B12673d025E'')])]"

definition defaultRegistries :: "number \<Rightarrow> (string \<times> string) list" where
  "defaultRegistries c =
     (case c of
        NaN \<Rightarrow> []
      | Num r \<Rightarrow> (case map_of DEFAULT_REGISTRIES r of None \<Rightarrow> [] | Some regs \<Rightarrow> regs))"

definition registryAddresses :: "number \<Rightarrow> error + string \<times> string" where
  "registryAddresses c =
     (let regs = defaultRegistries c in
      case (map_of regs ''IDENTITY'', map_of regs ''REPUTATION'') of
        (Some i, Some r) \<Rightarrow> if i = [] \<or> r = [] then Inl (NoDefaultRegistries c) else Inr (i, r)
      | _ \<Rightarrow> Inl (NoDefaultRegistries c))"

subsection \<open>The agent identifier (lines 168-174)\<close>

definition parseAgentId :: "string \<Rightarrow> error + number \<times> number" where
  "parseAgentId s =
     (case str_split CHR '':'' s of
        [a, b] \<Rightarrow> if a = [] \<or> b = [] then Inl InvalidAgentId else Inr (parseInt a, parseInt b)
      | _ \<Rightarrow> Inl InvalidAgentId)"

subsection \<open>The signer (lines 176-188)\<close>

definition walletOf :: "runtime \<Rightarrow> signer \<Rightarrow> error + wallet" where
  "walletOf rt sg =
     (case sg of
        KeyString k \<Rightarrow> walletFromKey rt k
      | EthersWallet w \<Rightarrow> Inr w
      | OtherSigner \<Rightarrow> Inl UnsupportedSigner)"

subsection \<open>The feedback index (lines 202-213)\<close>

text \<open>
  The \<open>try\<close> block holds \<open>BigInt(tokenId)\<close>, the awaited read and \<open>Number(lastIndex) + 1\<close>;
  the \<open>catch\<close> block sets the index to 1.
\<close>

definition resolveIndex :: "registry_read \<Rightarrow> number \<Rightarrow> string \<Rightarrow> number" where
  "resolveIndex getLastIndexMethod tokenId clientAddress =
     (case BigInt tokenId of
        Inl _ \<Rightarrow> Num 1
      | Inr t \<Rightarrow>
          (case getLastIndexMethod t clientAddress of
             Inl _ \<Rightarrow> Num 1
           | Inr lastIndex \<Rightarrow> Num (real lastIndex + 1)))"

subsection \<open>prepareFeedback (lines 352-406)\<close>

definition opt_str :: "string option \<Rightarrow> jsval" where
  "opt_str x = (case x of None \<Rightarrow> JUndefined | Some s \<Rightarrow> JStr s)"

definition opt_obj :: "obj option \<Rightarrow> jsval" where
  "opt_obj x = (case x of None \<Rightarrow> JUndefined | Some ob \<Rightarrow> JObj ob)"

text \<open>The object literal \<open>feedbackData\<close> and the loop that drops its absent values.\<close>

definition feedbackData ::
  "runtime \<Rightarrow> string \<Rightarrow> number \<Rightarrow> string \<Rightarrow> number \<Rightarrow> string \<Rightarrow> number option \<Rightarrow>
   string list \<Rightarrow> string option \<Rightarrow> obj option \<Rightarrow> string option \<Rightarrow> string option \<Rightarrow>
   string option \<Rightarrow> obj option \<Rightarrow> obj" where
  "feedbackData rt createdAt tokenId clientAddress chainId identityRegistryAddress score
      tagsArray skill context task capability name proofOfPayment =
     [(''agentRegistry'',
         JStr (''eip155:'' @ numberToString rt chainId @ '':'' @ identityRegistryAddress)),
      (''agentId'', JNum tokenId),
      (''clientAddress'', JStr (''eip155:'' @ numberToString rt chainId @ '':'' @ clientAddress)),
      (''createdAt'', JStr createdAt),
      (''feedbackAuth'', JStr []),
      (''score'', JNum (case score of None \<Rightarrow> Num 0 | Some s \<Rightarrow> Math_round s)),
      (''tag1'',
         (case tagsArray of
            [] \<Rightarrow> JUndefined
          | t # _ \<Rightarrow> if t = [] then JUndefined else JStr t)),
      (''tag2'', if length tagsArray > 1 then JStr (tagsArray ! 1) else JUndefined),
      (''skill'', opt_str skill),
      (''context'', opt_obj context),
      (''task'', opt_str task),
      (''capability'', opt_str capability),
      (''name'', opt_str name),
      (''proofOfPayment'', opt_obj proofOfPayment)]"

definition cleaned :: "obj \<Rightarrow> obj" where
  "cleaned fd = filter (\<lambda>kv. snd kv \<noteq> JUndefined \<and> snd kv \<noteq> JNull) fd"

definition prepareFeedback ::
  "runtime \<Rightarrow> string \<Rightarrow> string \<Rightarrow> string \<Rightarrow> number \<Rightarrow> string \<Rightarrow> number option \<Rightarrow>
   string list option \<Rightarrow> string option \<Rightarrow> string option \<Rightarrow> string option \<Rightarrow> string option \<Rightarrow>
   string option \<Rightarrow> obj option \<Rightarrow> obj option \<Rightarrow> obj option \<Rightarrow> error + obj" where
  "prepareFeedback rt createdAt agentId clientAddress chainId identityRegistryAddress score tags
      text capability name skill task context proofOfPayment extra =
     (case str_split CHR '':'' agentId of
        [a, b] \<Rightarrow>
          if b = [] then Inl InvalidAgentIdInPrepare
          else
            let tokenId = parseInt b;
                tagsArray = (case tags of None \<Rightarrow> [] | Some ts \<Rightarrow> ts);
                fd = feedbackData rt createdAt tokenId clientAddress chainId
                       identityRegistryAddress score tagsArray skill context task capability
                       name proofOfPayment
            in Inr (case extra of None \<Rightarrow> cleaned fd | Some ex \<Rightarrow> Object_assign (cleaned fd) ex)
      | _ \<Rightarrow> Inl InvalidAgentIdInPrepare)"

subsection \<open>stringToBytes32 (lines 411-423)\<close>

definition zeroBytes32 :: string where
  "zeroBytes32 = ''0x'' @ concat (replicate 32 ''00'')"

definition stringToBytes32 :: "string \<Rightarrow> string" where
  "stringToBytes32 txt =
     (if txt = [] then zeroBytes32
      else
        let encoded = map of_char txt :: byte list;
            len = min (length encoded) 32
        in hexlify (take len encoded @ replicate (32 - len) 0))"

subsection \<open>signFeedbackAuth (lines 311-347)\<close>

definition strip0x :: "string \<Rightarrow> string" where
  "strip0x s = (if take 2 s = ''0x'' then drop 2 s else s)"

definition keccak256_hex :: "runtime \<Rightarrow> string \<Rightarrow> error + string" where
  "keccak256_hex rt data =
     (case getBytes data of
        None \<Rightarrow> Inl (External ''invalid BytesLike value'')
      | Some bs \<Rightarrow> Inr (hexlify (keccak256 rt bs)))"

definition signMessage_hex :: "wallet \<Rightarrow> byte list \<Rightarrow> error + string" where
  "signMessage_hex w msg = (case signMessage w msg of Inl e \<Rightarrow> Inl e | Inr sg \<Rightarrow> Inr (hexlify sg))"

definition expiryOf :: "nat \<Rightarrow> number \<Rightarrow> number" where
  "expiryOf now expiryHours =
     (case expiryHours of NaN \<Rightarrow> NaN | Num h \<Rightarrow> Num (real (now div 1000) + h * 3600))"

definition signFeedbackAuth ::
  "runtime \<Rightarrow> nat \<Rightarrow> number \<Rightarrow> string \<Rightarrow> number \<Rightarrow> number \<Rightarrow> string \<Rightarrow> wallet \<Rightarrow>
   number option \<Rightarrow> error + string" where
  "signFeedbackAuth rt now tokenId clientAddress indexLimit chainId identityRegistryAddress w
      expiryHours =
     (case BigInt (expiryOf now (case expiryHours of None \<Rightarrow> Num 24 | Some h \<Rightarrow> h)) of
        Inl e \<Rightarrow> Inl e
      | Inr expiry \<Rightarrow>
     (case BigInt tokenId of
        Inl e \<Rightarrow> Inl e
      | Inr t \<Rightarrow>
     (case BigInt indexLimit of
        Inl e \<Rightarrow> Inl e
      | Inr i \<Rightarrow>
     (case BigInt chainId of
        Inl e \<Rightarrow> Inl e
      | Inr c \<Rightarrow>
     (case abiEncode rt
             [Uint256 t, Address clientAddress, Uint256 i, Uint256 expiry, Uint256 c,
              Address identityRegistryAddress, Address (address w)] of
        Inl e \<Rightarrow> Inl e
      | Inr enc \<Rightarrow>
          let authData = hexlify enc in
     (case keccak256_hex rt authData of
        Inl e \<Rightarrow> Inl e
      | Inr messageHash \<Rightarrow>
     (case getBytes messageHash of
        None \<Rightarrow> Inl (External ''invalid BytesLike value'')
      | Some digest \<Rightarrow>
     (case signMessage_hex w digest of
        Inl e \<Rightarrow> Inl e
      | Inr signature \<Rightarrow> Inr (''0x'' @ strip0x authData @ strip0x signature)))))))))"

subsection \<open>JSON.stringify with a property list\<close>

text \<open>
  \<open>JSON.stringify(value, list)\<close> as ECMA-262 defines it for a replacer that is an array of
  strings: the list is the property list of \<^emph>\<open>every\<close> object that is serialized, the
  nested ones too; an object's members are written in the order of the list, and a key
  that is not in the list is not written. Without a list an object's own keys are used.
  \<open>undefined\<close> is left out of an object and is \<open>null\<close> in an array; so is \<open>NaN\<close>.
\<close>

definition quote_char :: "char \<Rightarrow> string" where
  "quote_char c =
     (if c = CHR 0x22 then [CHR 0x5C, CHR 0x22]
      else if c = CHR 0x5C then [CHR 0x5C, CHR 0x5C]
      else if c = CHR 0x08 then [CHR 0x5C, CHR ''b'']
      else if c = CHR 0x0C then [CHR 0x5C, CHR ''f'']
      else if c = CHR 0x0A then [CHR 0x5C, CHR ''n'']
      else if c = CHR 0x0D then [CHR 0x5C, CHR ''r'']
      else if c = CHR 0x09 then [CHR 0x5C, CHR ''t'']
      else if c < CHR 0x20
        then [CHR 0x5C, CHR ''u'', CHR ''0'', CHR ''0'', hex_char (of_char c div 16), hex_char (of_char c mod 16)]
      else [c])"

definition quote :: "string \<Rightarrow> string" where
  "quote s = [CHR 0x22] @ concat (map quote_char s) @ [CHR 0x22]"

fun join :: "string \<Rightarrow> string list \<Rightarrow> string" where
  "join sep [] = []"
| "join sep [x] = x"
| "join sep (x # y # r) = x @ sep @ join sep (y # r)"

fun serialize :: "runtime \<Rightarrow> string list option \<Rightarrow> jsval \<Rightarrow> string option" where
  "serialize rt pl JUndefined = None"
| "serialize rt pl JNull = Some ''null''"
| "serialize rt pl (JBool b) = Some (if b then ''true'' else ''false'')"
| "serialize rt pl (JNum NaN) = Some ''null''"
| "serialize rt pl (JNum (Num r)) = Some (numberToString rt (Num r))"
| "serialize rt pl (JStr s) = Some (quote s)"
| "serialize rt pl (JArr xs) =
     Some (''['' @ join '','' (map (\<lambda>x. case serialize rt pl x of None \<Rightarrow> ''null'' | Some s \<Rightarrow> s) xs) @ '']'')"
| "serialize rt pl (JObj kvs) =
     (let done = map (\<lambda>kv. (fst kv, serialize rt pl (snd kv))) kvs;
          K = (case pl of None \<Rightarrow> map fst kvs | Some ps \<Rightarrow> ps);
          partial = List.map_filter
            (\<lambda>p. case map_of done p of
                    Some (Some s) \<Rightarrow> Some (quote p @ '':'' @ s)
                  | _ \<Rightarrow> None) K
      in Some (''{'' @ join '','' partial @ ''}''))"

subsection \<open>giveFeedback (lines 151-306)\<close>

definition tagAt :: "string list option \<Rightarrow> nat \<Rightarrow> string" where
  "tagAt tgs i = (case tgs of None \<Rightarrow> [] | Some ts \<Rightarrow> if i < length ts then ts ! i else [])"

definition sortedJson :: "runtime \<Rightarrow> obj \<Rightarrow> string option" where
  "sortedJson rt file = serialize rt (Some (sort (Object_keys file))) (JObj file)"

definition storeContent :: "runtime \<Rightarrow> world \<Rightarrow> ContractConfig \<Rightarrow> obj \<Rightarrow> string \<times> string" where
  "storeContent rt w cc file =
     (case cc_pinataJwt cc of
        None \<Rightarrow> ('''', zeroBytes32)
      | Some jwt \<Rightarrow>
          if jwt = [] then ('''', zeroBytes32)
          else
            (case uploadJson w jwt file of
               Inl _ \<Rightarrow> ('''', zeroBytes32)
             | Inr cid \<Rightarrow>
                 (case sortedJson rt file of
                    None \<Rightarrow> (''ipfs://'' @ cid, zeroBytes32)
                  | Some js \<Rightarrow> (''ipfs://'' @ cid, hexlify (keccak256 rt (map of_char js))))))"

definition submitAndConfirm ::
  "world \<Rightarrow> submission \<Rightarrow> number \<Rightarrow> obj \<Rightarrow> error + feedback_result" where
  "submitAndConfirm w sub feedbackIndex feedbackFile =
     (case giveFeedbackTx w sub of
        Inl e \<Rightarrow> Inl e
      | Inr t \<Rightarrow>
          (case wait t of
             Inl e \<Rightarrow> Inl e
           | Inr blk \<Rightarrow>
               Inr \<lparr> res_transactionHash = hash t, res_blockNumber = blk, res_feedbackIndex = feedbackIndex,
                     res_feedbackFile = feedbackFile, res_feedbackUri = sub_feedbackUri sub \<rparr>))"

text \<open>
  Lines 161-272: everything up to the transaction. The upload and the content hash share
  one \<open>try\<close> block (\<open>storeContent\<close>), whose \<open>catch\<close> only logs.
\<close>

definition buildSubmission ::
  "runtime \<Rightarrow> world \<Rightarrow> FeedbackParams \<Rightarrow> ContractConfig \<Rightarrow> signer \<Rightarrow>
   error + submission \<times> number \<times> obj" where
  "buildSubmission rt w fp cc sg =
     (case registryAddresses (cc_chainId cc) of
        Inl e \<Rightarrow> Inl e
      | Inr (identityRegistryAddress, reputationRegistryAddress) \<Rightarrow>
     (case parseAgentId (fp_agentId fp) of
        Inl e \<Rightarrow> Inl e
      | Inr (chainId, tokenId) \<Rightarrow>
     (case walletOf rt sg of
        Inl e \<Rightarrow> Inl e
      | Inr wl \<Rightarrow>
          let clientAddress = address wl;
              feedbackIndex = resolveIndex (getLastIndex w) tokenId clientAddress
          in
     (case prepareFeedback rt (nowIso w) (fp_agentId fp) clientAddress chainId
             identityRegistryAddress (fp_score fp) (fp_tags fp) (fp_text fp) (fp_capability fp)
             (fp_name fp) (fp_skill fp) (fp_task fp) (fp_context fp) (fp_proofOfPayment fp)
             (fp_extra fp) of
        Inl e \<Rightarrow> Inl e
      | Inr prepared \<Rightarrow>
     (case signFeedbackAuth rt (nowMs w) tokenId clientAddress feedbackIndex chainId
             identityRegistryAddress wl None of
        Inl e \<Rightarrow> Inl e
      | Inr feedbackAuth \<Rightarrow>
          let feedbackFile = obj_set ''feedbackAuth'' (JStr feedbackAuth) prepared;
              score = (if obj_get feedbackFile ''score'' \<noteq> JUndefined
                       then toNumber rt (obj_get feedbackFile ''score'')
                       else Num 0);
              tag1 = stringToBytes32 (tagAt (fp_tags fp) 0);
              tag2 = stringToBytes32 (tagAt (fp_tags fp) 1);
              (feedbackUri, feedbackHash) = storeContent rt w cc feedbackFile
          in
     (case (BigInt tokenId, getBytes feedbackAuth) of
        (Inr t, Some auth) \<Rightarrow>
          Inr (\<lparr> sub_tokenId = t, sub_score = score, sub_tag1 = tag1, sub_tag2 = tag2,
                 sub_feedbackUri = feedbackUri, sub_feedbackHash = feedbackHash,
                 sub_feedbackAuth = auth \<rparr>,
               feedbackIndex, feedbackFile)
      | (Inl e, _) \<Rightarrow> Inl e
      | (_, None) \<Rightarrow> Inl (External ''invalid BytesLike value'')))))))"

text \<open>Lines 277-305: the transaction, its receipt and the value returned.\<close>

definition giveFeedback ::
  "runtime \<Rightarrow> world \<Rightarrow> FeedbackParams \<Rightarrow> ContractConfig \<Rightarrow> signer \<Rightarrow> error + feedback_result" where
  "giveFeedback rt w fp cc sg =
     (case buildSubmission rt w fp cc sg of
        Inl e \<Rightarrow> Inl e
      | Inr (sub, feedbackIndex, feedbackFile) \<Rightarrow> submitAndConfirm w sub feedbackIndex feedbackFile)"

section \<open>The IPFS client: get\<close>

text \<open>
  A response of \<open>fetch\<close>: its \<open>ok\<close> flag, its status, and what \<open>text()\<close> and \<open>json()\<close> give.
  The network answers the \<open>i\<close>-th request of a call, to a URL, with the time at which
  the request settles and its outcome. \<open>IPFS_GATEWAYS\<close> (utils/constants) is a parameter.
\<close>

record response =
  resp_ok :: bool
  resp_status :: nat
  resp_text :: "error + string"
  resp_json :: "error + jsval"









section \<open>The endpoint crawler\<close>

subsection \<open>Objects and arrays as the crawler reads them\<close>

text \<open>
  \<open>x && typeof x === 'object'\<close> holds of objects and arrays; \<open>k in x\<close> and \<open>x[k]\<close> are
  applied to such values only, but for the \<open>key in data\<close> of \<open>_extractList\<close>, which is a
  \<open>TypeError\<close> on anything else. The keys looked up are the fixed ones of the crawler,
  none of which an object or an array inherits, so own properties decide.
\<close>

definition is_object :: "jsval \<Rightarrow> bool" where
  "is_object v = (case v of JObj _ \<Rightarrow> True | JArr _ \<Rightarrow> True | _ \<Rightarrow> False)"

definition isArray :: "jsval \<Rightarrow> bool" where
  "isArray v = (case v of JArr _ \<Rightarrow> True | _ \<Rightarrow> False)"

definition array_index :: "string \<Rightarrow> nat option" where
  "array_index k =
     (if k \<noteq> [] \<and> list_all is_digit k \<and> (k = ''0'' \<or> hd k \<noteq> CHR ''0'') then Some (digits_val k)
      else None)"

definition has_key :: "string \<Rightarrow> jsval \<Rightarrow> bool" where
  "has_key k v =
     (case v of
        JObj kvs \<Rightarrow> map_of kvs k \<noteq> None
      | JArr xs \<Rightarrow>
          k = ''length'' \<or> (case array_index k of None \<Rightarrow> False | Some i \<Rightarrow> i < length xs)
      | _ \<Rightarrow> False)"

definition get_prop :: "jsval \<Rightarrow> string \<Rightarrow> jsval" where
  "get_prop v k =
     (case v of
        JObj kvs \<Rightarrow> obj_get kvs k
      | JArr xs \<Rightarrow>
          if k = ''length'' then JNum (Num (real (length xs)))
          else (case array_index k of
                  None \<Rightarrow> JUndefined
                | Some i \<Rightarrow> if i < length xs then xs ! i else JUndefined)
      | _ \<Rightarrow> JUndefined)"

subsection \<open>The JSON-RPC probe\<close>

text \<open>
  \<open>_jsonRpcCall(url, method)\<close> never throws: it gives the reply's result, or \<open>null\<close>. It
  is the parameter \<open>call\<close>. The three calls of one path are awaited together, and the
  names are then read off the three replies.
\<close>

record McpCapabilities =
  mcpTools :: "jsval list option"
  mcpPrompts :: "jsval list option"
  mcpResources :: "jsval list option"

record A2aCapabilities =
  a2aSkills :: "string list option"

type_synonym rpc = "string \<Rightarrow> string \<Rightarrow> jsval"

definition namedEntries :: "string \<Rightarrow> jsval \<Rightarrow> jsval list" where
  "namedEntries field reply =
     (if truthy reply \<and> is_object reply \<and> has_key field reply then
        (case get_prop reply field of
           JArr items \<Rightarrow>
             concat (map (\<lambda>tool. if truthy tool \<and> is_object tool \<and> has_key ''name'' tool
                                  then [get_prop tool ''name''] else []) items)
         | _ \<Rightarrow> [])
      else [])"

definition resourceEntries :: "jsval \<Rightarrow> jsval list" where
  "resourceEntries resources =
     (if truthy resources \<and> is_object resources \<and> has_key ''resources'' resources then
        (case get_prop resources ''resources'' of
           JArr items \<Rightarrow>
             concat (map (\<lambda>resource.
                       if truthy resource \<and> is_object resource then
                         (let name = (if truthy (get_prop resource ''uri'') then get_prop resource ''uri''
                                      else get_prop resource ''name'')
                          in if truthy name then [name] else [])
                       else []) items)
         | _ \<Rightarrow> [])
      else [])"

definition nonEmpty :: "'a list \<Rightarrow> 'a list option" where
  "nonEmpty xs = (if length xs > 0 then Some xs else None)"

text \<open>The body of the loop over the paths: the three calls to one URL and what they list.\<close>

definition probePath :: "rpc \<Rightarrow> string \<Rightarrow> McpCapabilities option" where
  "probePath call url =
     (let tools = call url ''tools/list'';
          resources = call url ''resources/list'';
          prompts = call url ''prompts/list'';
          mcpTools = namedEntries ''tools'' tools;
          mcpResources = resourceEntries resources;
          mcpPrompts = namedEntries ''prompts'' prompts
      in if mcpTools \<noteq> [] \<or> mcpResources \<noteq> [] \<or> mcpPrompts \<noteq> [] then
           Some \<lparr> mcpTools = nonEmpty mcpTools, mcpPrompts = nonEmpty mcpPrompts,
                  mcpResources = nonEmpty mcpResources \<rparr>
         else None)"

fun tryPaths :: "rpc \<Rightarrow> string \<Rightarrow> string list \<Rightarrow> McpCapabilities option" where
  "tryPaths call base [] = None"
| "tryPaths call base (path # rest) =
     (case probePath call (base @ path) of
        Some result \<Rightarrow> Some result
      | None \<Rightarrow> tryPaths call base rest)"

definition fetchViaJsonRpc :: "rpc \<Rightarrow> string \<Rightarrow> McpCapabilities option" where
  "fetchViaJsonRpc call httpUrl = tryPaths call (stripTrailingSlash httpUrl) ['''', ''/mcp'', ''/sse'']"

subsection \<open>_extractList\<close>

fun firstNameField :: "jsval \<Rightarrow> string list \<Rightarrow> string list" where
  "firstNameField item [] = []"
| "firstNameField item (nameField # rest) =
     (case (has_key nameField item, get_prop item nameField) of
        (True, JStr s) \<Rightarrow> [s]
      | _ \<Rightarrow> firstNameField item rest)"

definition itemNames :: "jsval \<Rightarrow> string list" where
  "itemNames item =
     (case item of
        JStr s \<Rightarrow> [s]
      | _ \<Rightarrow> if truthy item \<and> is_object item
             then firstNameField item [''name'', ''id'', ''identifier'', ''title''] else [])"

definition listUnder :: "jsval \<Rightarrow> string \<Rightarrow> string list" where
  "listUnder holder key =
     (if has_key key holder then
        (case get_prop holder key of JArr items \<Rightarrow> concat (map itemNames items) | _ \<Rightarrow> [])
      else [])"

fun scanContainers :: "jsval \<Rightarrow> string \<Rightarrow> string list \<Rightarrow> string list" where
  "scanContainers data key [] = []"
| "scanContainers data key (containerKey # rest) =
     (if has_key containerKey data \<and> truthy (get_prop data containerKey)
         \<and> is_object (get_prop data containerKey) then
        (let result = listUnder (get_prop data containerKey) key
         in if length result > 0 then result else scanContainers data key rest)
      else scanContainers data key rest)"

definition extractList :: "jsval \<Rightarrow> string \<Rightarrow> error + string list" where
  "extractList data key =
     (if \<not> is_object data then Inl TypeError
      else
        let result = listUnder data key
        in if length result = 0
           then Inr (scanContainers data key [''capabilities'', ''abilities'', ''features''])
           else Inr result)"

subsection \<open>fetchMcpCapabilities and fetchA2aCapabilities\<close>

type_synonym http = "string \<Rightarrow> error + response"

definition agentcardCapabilities :: "http \<Rightarrow> string \<Rightarrow> McpCapabilities option" where
  "agentcardCapabilities fetch endpoint =
     (case fetch (endpoint @ ''/agentcard.json'') of
        Inl _ \<Rightarrow> None
      | Inr r \<Rightarrow>
          if resp_ok r then
            (case resp_json r of
               Inl _ \<Rightarrow> None
             | Inr data \<Rightarrow>
                 (case (extractList data ''tools'', extractList data ''prompts'',
                        extractList data ''resources'') of
                    (Inr t, Inr p, Inr rs) \<Rightarrow>
                      if length t > 0 \<or> length p > 0 \<or> length rs > 0 then
                        Some \<lparr> mcpTools = Some (map JStr t), mcpPrompts = Some (map JStr p),
                               mcpResources = Some (map JStr rs) \<rparr>
                      else None
                  | _ \<Rightarrow> None))
          else None)"

definition fetchMcpCapabilities :: "rpc \<Rightarrow> http \<Rightarrow> string \<Rightarrow> McpCapabilities option" where
  "fetchMcpCapabilities call fetch endpoint =
     (if \<not> startsWith endpoint ''http://'' \<and> \<not> startsWith endpoint ''https://'' then None
      else
        (case fetchViaJsonRpc call endpoint of
           Some capabilities \<Rightarrow> Some capabilities
         | None \<Rightarrow> agentcardCapabilities fetch endpoint))"

fun tryAgentcards :: "http \<Rightarrow> string list \<Rightarrow> A2aCapabilities option" where
  "tryAgentcards fetch [] = None"
| "tryAgentcards fetch (agentcardUrl # rest) =
     (case fetch agentcardUrl of
        Inl _ \<Rightarrow> tryAgentcards fetch rest
      | Inr r \<Rightarrow>
          if resp_ok r then
            (case resp_json r of
               Inl _ \<Rightarrow> tryAgentcards fetch rest
             | Inr data \<Rightarrow>
                 (case extractList data ''skills'' of
                    Inl _ \<Rightarrow> tryAgentcards fetch rest
                  | Inr skills \<Rightarrow>
                      if length skills > 0 then Some \<lparr> a2aSkills = Some skills \<rparr>
                      else tryAgentcards fetch rest))
          else tryAgentcards fetch rest)"

definition fetchA2aCapabilities :: "http \<Rightarrow> string \<Rightarrow> A2aCapabilities option" where
  "fetchA2aCapabilities fetch endpoint =
     (if \<not> startsWith endpoint ''http://'' \<and> \<not> startsWith endpoint ''https://'' then None
      else tryAgentcards fetch
             [endpoint @ ''/agentcard.json'',
              endpoint @ ''/.well-known/agent.json'',
              stripTrailingSlash endpoint @ ''/.well-known/agent.json''])"

section \<open>The canonical serialization of the specification\<close>

text \<open>
  For comparison with \<open>sortedJson\<close>, the serialization the specification describes,
  which no source function computes: compact JSON with the keys of every object, nested
  ones too, in sorted order and no field left out.
\<close>

fun sort_keys :: "jsval \<Rightarrow> jsval" where
  "sort_keys (JObj kvs) = JObj (sort_key fst (map (\<lambda>kv. (fst kv, sort_keys (snd kv))) kvs))"
| "sort_keys (JArr xs) = JArr (map sort_keys xs)"
| "sort_keys v = v"

definition spec_canonicalJson :: "runtime \<Rightarrow> obj \<Rightarrow> string option" where
  "spec_canonicalJson rt file = serialize rt None (sort_keys (JObj file))"

section \<open>Stand-ins for the parameters\<close>

text \<open>
  To run the model on concrete inputs the parameters need values. These are stand-ins
  and no more: a coder that writes one byte for each field, a digest that is the length
  of its input, a wallet whose signature is the message and one byte more.
\<close>

definition toyRuntime :: runtime where
  "toyRuntime =
     \<lparr> numberToStringOther = (\<lambda>_. ''?''),
       toNumberOther = (\<lambda>_. NaN),
       abiEncode =
         (\<lambda>vs. Inr (map (\<lambda>v. case v of Uint256 n \<Rightarrow> of_int (n mod 256)
                                        | Address a \<Rightarrow> of_nat (length a)) vs)),
       keccak256 = (\<lambda>bs. [of_nat (length bs)]),
       walletFromKey = (\<lambda>k. Inl (External ''invalid private key'')) \<rparr>"

definition toyWallet :: wallet where
  "toyWallet = \<lparr> address = ''0xA1'', signMessage = (\<lambda>m. Inr (m @ [27])) \<rparr>"

definition toyWorld :: world where
  "toyWorld =
     \<lparr> nowMs = 1700000000123,
       nowIso = ''2023-11-14T22:13:20.123Z'',
       getLastIndex = (\<lambda>t c. Inl (External ''call revert exception'')),
       uploadJson = (\<lambda>jwt data. Inl (External ''pinata unreachable'')),
       giveFeedbackTx = (\<lambda>sub. Inr \<lparr> hash = ''0xfeed'', wait = Inr 5 \<rparr>) \<rparr>"

definition toyParams :: FeedbackParams where
  "toyParams =
     \<lparr> fp_agentId = ''11155111:42'', fp_score = Some (Num 97),
       fp_tags = Some [''helpful'', ''fast''], fp_text = None, fp_capability = None,
       fp_name = None, fp_skill = None, fp_task = None, fp_context = None,
       fp_proofOfPayment = None, fp_extra = None \<rparr>"

definition toyConfig :: ContractConfig where
  "toyConfig =
     \<lparr> cc_chainId = Num 11155111, cc_rpcUrl = ''http://localhost:8545'',
       cc_pinataJwt = Some ''jwt'', cc_pinataGateway = None \<rparr>"




text \<open>A feedback file whose context has a field of its own and one named like a top-level key.\<close>

definition toyFile :: "string \<Rightarrow> obj" where
  "toyFile session =
     [(''agentRegistry'', JStr ''eip155:11155111:0x1D''),
      (''agentId'', JNum (Num 42)),
      (''clientAddress'', JStr ''eip155:11155111:0xC1''),
      (''createdAt'', JStr ''2023-11-14T22:13:20.123Z''),
      (''feedbackAuth'', JStr ''0x2a''),
      (''score'', JNum (Num 97)),
      (''context'', JObj [(''session'', JStr session), (''score'', JNum (Num 5))])]"

section \<open>Properties\<close>

subsection \<open>Numbers and hex strings\<close>

lemma BigInt_of_int [simp]: "BigInt (Num (of_int t)) = Inr t"
  by (simp add: BigInt_def is_integer_def)

lemma unhex_hex_char: "d < 16 \<Longrightarrow> unhex_char (hex_char d) = Some d"
proof -
  assume "d < 16"
  then consider "d = 0" | "d = 1" | "d = 2" | "d = 3" | "d = 4" | "d = 5" | "d = 6" | "d = 7"
    | "d = 8" | "d = 9" | "d = 10" | "d = 11" | "d = 12" | "d = 13" | "d = 14" | "d = 15"
    by atomize_elim presburger
  then show ?thesis
    by cases (simp_all add: hex_char_def unhex_char_def)
qed

lemma unhex_hex_byte: "unhex_pairs (hex_byte b @ r) = map_option ((#) b) (unhex_pairs r)"
proof -
  have lt: "unat b < 256" using unsigned_less [of b] by simp
  then have hi: "unat b div 16 < 16" and lo: "unat b mod 16 < 16" by simp_all
  have "(of_nat (16 * (unat b div 16) + unat b mod 16) :: byte) = of_nat (unat b)" by simp
  then have same: "(of_nat (16 * (unat b div 16) + unat b mod 16) :: byte) = b" by simp
  show ?thesis
    unfolding hex_byte_def
    by (cases "unhex_pairs r")
      (simp_all add: unhex_hex_char [OF hi] unhex_hex_char [OF lo] same del: of_nat_add of_nat_mult)
qed

lemma getBytes_hexlify: "getBytes (hexlify bs) = Some bs"
proof -
  have "unhex_pairs (concat (map hex_byte bs)) = Some bs"
    by (induction bs) (simp_all add: unhex_hex_byte)
  then show ?thesis by (simp add: getBytes_def hexlify_def)
qed

lemma strip0x_hexlify: "strip0x (hexlify bs) = concat (map hex_byte bs)"
  by (simp add: strip0x_def hexlify_def)

lemma hexlify_concat:
  "CHR ''0'' # CHR ''x'' # strip0x (hexlify a) @ strip0x (hexlify b) = hexlify (a @ b)"
  unfolding strip0x_hexlify by (simp add: hexlify_def)

lemma BigInt_Inr_iff: "BigInt x = Inr t \<longleftrightarrow> x = Num (of_int t)"
  by (cases x) (auto simp: BigInt_def is_integer_def)

lemma hexlify_inject: "hexlify a = hexlify b \<Longrightarrow> a = b"
  by (metis getBytes_hexlify option.inject)

text \<open>What a successful signFeedbackAuth returns.\<close>

lemma signFeedbackAuth_Inr:
  "signFeedbackAuth rt now tokenId clientAddress indexLimit chainId identityRegistryAddress w
      expiryHours = Inr token \<longleftrightarrow>
   (\<exists>t i c x enc sg.
      tokenId = Num (of_int t) \<and> indexLimit = Num (of_int i) \<and> chainId = Num (of_int c) \<and>
      expiryOf now (case expiryHours of None \<Rightarrow> Num 24 | Some h \<Rightarrow> h) = Num (of_int x) \<and>
      abiEncode rt
        [Uint256 t, Address clientAddress, Uint256 i, Uint256 x, Uint256 c,
         Address identityRegistryAddress, Address (address w)] = Inr enc \<and>
      signMessage w (keccak256 rt enc) = Inr sg \<and>
      token = hexlify (enc @ sg))"
  (is "?L \<longleftrightarrow> ?R")
proof
  assume ?L
  then show ?R
    unfolding signFeedbackAuth_def keccak256_hex_def signMessage_hex_def Let_def
    by (auto simp: BigInt_Inr_iff getBytes_hexlify hexlify_concat split: sum.splits option.splits)
next
  assume ?R
  then obtain t i c x enc sg where
    "tokenId = Num (of_int t)" "indexLimit = Num (of_int i)" "chainId = Num (of_int c)"
    "expiryOf now (case expiryHours of None \<Rightarrow> Num 24 | Some h \<Rightarrow> h) = Num (of_int x)"
    "abiEncode rt
        [Uint256 t, Address clientAddress, Uint256 i, Uint256 x, Uint256 c,
         Address identityRegistryAddress, Address (address w)] = Inr enc"
    "signMessage w (keccak256 rt enc) = Inr sg" "token = hexlify (enc @ sg)"
    by blast
  then show ?L
    unfolding signFeedbackAuth_def keccak256_hex_def signMessage_hex_def Let_def
    by (simp add: getBytes_hexlify hexlify_concat)
qed

subsection \<open>The authorization token\<close>

text \<open>
  C1. A call of \<open>signFeedbackAuth\<close> returns a token exactly when its three numbers and
  the expiry are integers, the coder accepts the seven fields and the wallet signs. The
  token is then the hex string of the encoding of (tokenId, clientAddress, indexLimit,
  expiry, chainId, identityRegistryAddress, signer address), in this order, followed
  with no separator by the wallet's \<open>signMessage\<close> signature of the Keccak-256 digest of
  that encoding; the expiry is \<open>floor(now / 1000) + expiryHours * 3600\<close>, with 24 hours
  when none are given.
\<close>

theorem signFeedbackAuth_token:
  "signFeedbackAuth rt now tokenId clientAddress indexLimit chainId identityRegistryAddress w
      expiryHours = Inr token \<longleftrightarrow>
   (\<exists>t i c h x enc sg.
      tokenId = Num (of_int t) \<and> indexLimit = Num (of_int i) \<and> chainId = Num (of_int c) \<and>
      (case expiryHours of None \<Rightarrow> Num 24 | Some hours \<Rightarrow> hours) = Num h \<and>
      of_int x = real (now div 1000) + h * 3600 \<and>
      abiEncode rt
        [Uint256 t, Address clientAddress, Uint256 i, Uint256 x, Uint256 c,
         Address identityRegistryAddress, Address (address w)] = Inr enc \<and>
      signMessage w (keccak256 rt enc) = Inr sg \<and>
      token = hexlify (enc @ sg) \<and> getBytes token = Some (enc @ sg))"
  (is "?L \<longleftrightarrow> ?R")
proof
  assume ?L
  then obtain t i c x enc sg where
    *: "tokenId = Num (of_int t)" "indexLimit = Num (of_int i)" "chainId = Num (of_int c)"
    "expiryOf now (case expiryHours of None \<Rightarrow> Num 24 | Some h \<Rightarrow> h) = Num (of_int x)"
    "abiEncode rt
        [Uint256 t, Address clientAddress, Uint256 i, Uint256 x, Uint256 c,
         Address identityRegistryAddress, Address (address w)] = Inr enc"
    "signMessage w (keccak256 rt enc) = Inr sg" "token = hexlify (enc @ sg)"
    unfolding signFeedbackAuth_Inr by blast
  from *(4) obtain h where
    "(case expiryHours of None \<Rightarrow> Num 24 | Some hours \<Rightarrow> hours) = Num h"
    "of_int x = real (now div 1000) + h * 3600"
    by (auto simp: expiryOf_def split: number.splits)
  with * show ?R by (auto simp: getBytes_hexlify)
next
  assume ?R
  then obtain t i c h x enc sg where
    *: "tokenId = Num (of_int t)" "indexLimit = Num (of_int i)" "chainId = Num (of_int c)"
    "(case expiryHours of None \<Rightarrow> Num 24 | Some hours \<Rightarrow> hours) = Num h"
    "of_int x = real (now div 1000) + h * 3600"
    "abiEncode rt
        [Uint256 t, Address clientAddress, Uint256 i, Uint256 x, Uint256 c,
         Address identityRegistryAddress, Address (address w)] = Inr enc"
    "signMessage w (keccak256 rt enc) = Inr sg" "token = hexlify (enc @ sg)"
    by blast
  from *(4,5) have
    "expiryOf now (case expiryHours of None \<Rightarrow> Num 24 | Some h \<Rightarrow> h) = Num (of_int x)"
    by (simp add: expiryOf_def)
  with * show ?L
    unfolding signFeedbackAuth_Inr by blast
qed

theorem signFeedbackAuth_token_witness:
  "signFeedbackAuth toyRuntime 1700000000123 (Num 42) ''0xC1'' (Num 8) (Num 11155111) ''0x1D''
     toyWallet None = Inr (hexlify ([42, 4, 8, 128, 167, 4, 4] @ [7, 27]))"
  by (subst signFeedbackAuth_token, rule exI [of _ 42], rule exI [of _ 8],
      rule exI [of _ 11155111], rule exI [of _ 24], rule exI [of _ 1700086400])
    (simp add: toyRuntime_def toyWallet_def getBytes_hexlify)

subsection \<open>The feedback index\<close>



subsection \<open>Splitting and decimal numerals\<close>

lemma str_split_not_Nil [simp]: "str_split c s \<noteq> []"
  by (induction s) (auto split: list.splits)








lemma decimal_not_Nil [simp]: "decimal n \<noteq> []"
  by (subst decimal.simps) simp









lemma registryAddresses_sepolia:
  "registryAddresses (Num 11155111) =
     Inr (''0x5f63c5784DFE968f06d5e6ba16cB6018163827Be'', ''0xa3e1FF3Dc554233466a0095ED85fd88965362B7A'')"
  by (simp add: registryAddresses_def defaultRegistries_def DEFAULT_REGISTRIES_def)


subsection \<open>The agent identifier\<close>





subsection \<open>Objects\<close>

lemma obj_get_obj_set: "obj_get (obj_set k v ob) k' = (if k' = k then v else obj_get ob k')"
  by (induction ob) (auto simp: obj_get_def)

lemma obj_get_Object_assign:
  "obj_get (Object_assign target source) k =
     (case map_of (rev source) k of None \<Rightarrow> obj_get target k | Some v \<Rightarrow> v)"
proof (induction source arbitrary: target)
  case Nil
  then show ?case by (simp add: Object_assign_def)
next
  case (Cons kv source)
  obtain k' v' where kv: "kv = (k', v')" by (cases kv)
  have "obj_get (Object_assign target (kv # source)) k =
        obj_get (Object_assign (obj_set k' v' target) source) k"
    by (simp add: Object_assign_def kv)
  also have "\<dots> = (case map_of (rev source) k of
                      None \<Rightarrow> obj_get (obj_set k' v' target) k | Some v \<Rightarrow> v)"
    by (rule Cons.IH)
  also have "\<dots> = (case map_of (rev (kv # source)) k of None \<Rightarrow> obj_get target k | Some v \<Rightarrow> v)"
    by (simp add: kv map_add_def obj_get_obj_set split: option.splits)
  finally show ?case .
qed

lemma map_of_filter_snd:
  "distinct (map fst xs) \<Longrightarrow>
   map_of (filter (\<lambda>kv. P (snd kv)) xs) k =
     (case map_of xs k of None \<Rightarrow> None | Some v \<Rightarrow> if P v then Some v else None)"
proof (induction xs)
  case Nil
  then show ?case by simp
next
  case (Cons x xs)
  then have "k = fst x \<Longrightarrow> map_of xs k = None"
    by (simp add: map_of_eq_None_iff)
  with Cons show ?case by (cases x) (auto split: option.splits)
qed

subsection \<open>The record and the submission\<close>

lemma feedbackData_keys:
  "map fst (feedbackData rt createdAt tokenId clientAddress chainId identityRegistryAddress score
      tagsArray skill context task capability name proofOfPayment) =
   [''agentRegistry'', ''agentId'', ''clientAddress'', ''createdAt'', ''feedbackAuth'', ''score'',
    ''tag1'', ''tag2'', ''skill'', ''context'', ''task'', ''capability'', ''name'',
    ''proofOfPayment'']"
  by (simp add: feedbackData_def)

lemma feedbackData_score:
  "map_of (feedbackData rt createdAt tokenId clientAddress chainId identityRegistryAddress score
      tagsArray skill context task capability name proofOfPayment) ''score'' =
   Some (JNum (case score of None \<Rightarrow> Num 0 | Some s \<Rightarrow> Math_round s))"
  by (simp add: feedbackData_def)

lemma cleaned_score:
  "obj_get (cleaned (feedbackData rt createdAt tokenId clientAddress chainId
      identityRegistryAddress score tagsArray skill context task capability name proofOfPayment))
      ''score'' =
   JNum (case score of None \<Rightarrow> Num 0 | Some s \<Rightarrow> Math_round s)"
  unfolding obj_get_def cleaned_def
  by (subst map_of_filter_snd [where P = "\<lambda>v. v \<noteq> JUndefined \<and> v \<noteq> JNull"])
    (simp_all add: feedbackData_keys feedbackData_score)

lemma prepareFeedback_Inr:
  "prepareFeedback rt createdAt agentId clientAddress chainId identityRegistryAddress score tags
      text capability name skill task context proofOfPayment extra = Inr file \<longleftrightarrow>
   (\<exists>a b. str_split CHR '':'' agentId = [a, b] \<and> b \<noteq> [] \<and>
      file = (let fd = feedbackData rt createdAt (parseInt b) clientAddress chainId
                         identityRegistryAddress score (case tags of None \<Rightarrow> [] | Some ts \<Rightarrow> ts)
                         skill context task capability name proofOfPayment
              in case extra of None \<Rightarrow> cleaned fd | Some ex \<Rightarrow> Object_assign (cleaned fd) ex))"
  by (auto simp: prepareFeedback_def Let_def split: list.splits)

lemma prepareFeedback_score_field:
  assumes "prepareFeedback rt createdAt agentId clientAddress chainId identityRegistryAddress
      score tags text capability name skill task context proofOfPayment extra = Inr file"
  shows "obj_get file ''score'' =
     (case (case extra of None \<Rightarrow> None | Some ex \<Rightarrow> map_of (rev ex) ''score'') of
        Some v \<Rightarrow> v
      | None \<Rightarrow> JNum (case score of None \<Rightarrow> Num 0 | Some s \<Rightarrow> Math_round s))"
  using assms unfolding prepareFeedback_Inr Let_def
  by (auto simp: obj_get_Object_assign cleaned_score split: option.splits)

lemma buildSubmission_Inr:
  "buildSubmission rt w fp cc sg = Inr (sub, idx, file) \<longleftrightarrow>
   (\<exists>idAddr repAddr chainId tokenId wl prepared auth t authBytes.
      registryAddresses (cc_chainId cc) = Inr (idAddr, repAddr) \<and>
      parseAgentId (fp_agentId fp) = Inr (chainId, tokenId) \<and>
      walletOf rt sg = Inr wl \<and>
      idx = resolveIndex (getLastIndex w) tokenId (address wl) \<and>
      prepareFeedback rt (nowIso w) (fp_agentId fp) (address wl) chainId idAddr (fp_score fp)
        (fp_tags fp) (fp_text fp) (fp_capability fp) (fp_name fp) (fp_skill fp) (fp_task fp)
        (fp_context fp) (fp_proofOfPayment fp) (fp_extra fp) = Inr prepared \<and>
      signFeedbackAuth rt (nowMs w) tokenId (address wl) idx chainId idAddr wl None = Inr auth \<and>
      file = obj_set ''feedbackAuth'' (JStr auth) prepared \<and>
      BigInt tokenId = Inr t \<and> getBytes auth = Some authBytes \<and>
      sub = \<lparr> sub_tokenId = t,
              sub_score = (if obj_get file ''score'' \<noteq> JUndefined
                           then toNumber rt (obj_get file ''score'') else Num 0),
              sub_tag1 = stringToBytes32 (tagAt (fp_tags fp) 0),
              sub_tag2 = stringToBytes32 (tagAt (fp_tags fp) 1),
              sub_feedbackUri = fst (storeContent rt w cc file),
              sub_feedbackHash = snd (storeContent rt w cc file),
              sub_feedbackAuth = authBytes \<rparr>)"
  unfolding buildSubmission_def Let_def
  by (auto split: sum.splits prod.splits option.splits)

subsection \<open>The score of the record\<close>

lemma Math_round_nearest:
  "\<exists>n. Math_round (Num x) = Num (of_int n) \<and> x - 1 / 2 < of_int n \<and> of_int n \<le> x + 1 / 2"
proof -
  have "x - 1 / 2 < of_int \<lfloor>x + 1 / 2\<rfloor>" "of_int \<lfloor>x + 1 / 2\<rfloor> \<le> x + 1 / 2"
    by linarith+
  then show ?thesis by (auto simp: Math_round_def)
qed

text \<open>
  C6, as the code has it. The record's score is \<open>Math.round(score)\<close>, the nearest integer
  with a tie going up, and it is not clamped: an integer score is stored as it is,
  whatever its size or sign. A \<open>score\<close> entry of \<open>extra\<close> replaces it. With no score the
  record carries 0.
\<close>

theorem prepareFeedback_score:
  "(prepareFeedback rt createdAt agentId clientAddress chainId identityRegistryAddress
      score tags text capability name skill task context proofOfPayment extra = Inr file \<longrightarrow>
    obj_get file ''score'' =
      (case (case extra of None \<Rightarrow> None | Some ex \<Rightarrow> map_of (rev ex) ''score'') of
         Some v \<Rightarrow> v
       | None \<Rightarrow> JNum (case score of None \<Rightarrow> Num 0 | Some s \<Rightarrow> Math_round s))) \<and>
   (\<exists>n. Math_round (Num x) = Num (of_int n) \<and> x - 1 / 2 < of_int n \<and> of_int n \<le> x + 1 / 2) \<and>
   Math_round (Num (of_int k)) = Num (of_int k)"
proof (intro conjI impI)
  assume "prepareFeedback rt createdAt agentId clientAddress chainId identityRegistryAddress
      score tags text capability name skill task context proofOfPayment extra = Inr file"
  then show "obj_get file ''score'' =
      (case (case extra of None \<Rightarrow> None | Some ex \<Rightarrow> map_of (rev ex) ''score'') of
         Some v \<Rightarrow> v
       | None \<Rightarrow> JNum (case score of None \<Rightarrow> Num 0 | Some s \<Rightarrow> Math_round s))"
    by (rule prepareFeedback_score_field)
next
  show "\<exists>n. Math_round (Num x) = Num (of_int n) \<and> x - 1 / 2 < of_int n \<and> of_int n \<le> x + 1 / 2"
    by (rule Math_round_nearest)
next
  have "\<lfloor>real_of_int k + 1 / 2\<rfloor> = k" by linarith
  then show "Math_round (Num (of_int k)) = Num (of_int k)" by (simp add: Math_round_def)
qed

lemma prepareFeedback_toy:
  "\<exists>file. prepareFeedback toyRuntime ''2023-11-14T22:13:20.123Z'' ''11155111:42'' ''0xC1''
      (Num 11155111) ''0x1D'' score None None None None None None None None extra = Inr file"
  by (simp add: prepareFeedback_Inr parseAgentId_def)

theorem prepareFeedback_score_witness:
  "\<exists>file. prepareFeedback toyRuntime ''2023-11-14T22:13:20.123Z'' ''11155111:42'' ''0xC1''
      (Num 11155111) ''0x1D'' (Some (Num (5 / 2))) None None None None None None None None None
      = Inr file \<and> obj_get file ''score'' = JNum (Num 3)"
proof -
  obtain fl where ok: "prepareFeedback toyRuntime ''2023-11-14T22:13:20.123Z''
      ''11155111:42'' ''0xC1'' (Num 11155111) ''0x1D'' (Some (Num (5 / 2))) None None None None
      None None None None None = Inr fl"
    using prepareFeedback_toy by blast
  with prepareFeedback_score
    [of toyRuntime "''2023-11-14T22:13:20.123Z''" "''11155111:42''" "''0xC1''" "Num 11155111"
      "''0x1D''" "Some (Num (5 / 2))" None None None None None None None None None fl 0 0]
  have "obj_get fl ''score'' = JNum (Num 3)" by (simp add: Math_round_def)
  with ok show ?thesis by blast
qed

lemmas prepare_eval =
  prepareFeedback_def feedbackData_def cleaned_def numberToString_def is_integer_def
  decimal.simps digit_char_def opt_str_def opt_obj_def Math_round_def parseInt_def
  is_space_def is_digit_def digits_val_def digit_val_def toyRuntime_def Let_def

theorem prepareFeedback_score_counterexample:
  "prepareFeedback toyRuntime ''2023-11-14T22:13:20.123Z'' ''11155111:42'' ''0xC1''
      (Num 11155111) ''0x1D'' (Some (Num 150)) None None None None None None None None None =
   Inr [(''agentRegistry'', JStr ''eip155:11155111:0x1D''),
        (''agentId'', JNum (Num 42)),
        (''clientAddress'', JStr ''eip155:11155111:0xC1''),
        (''createdAt'', JStr ''2023-11-14T22:13:20.123Z''),
        (''feedbackAuth'', JStr []),
        (''score'', JNum (Num 150))] \<and>
   prepareFeedback toyRuntime ''2023-11-14T22:13:20.123Z'' ''11155111:42'' ''0xC1''
      (Num 11155111) ''0x1D'' (Some (Num (- 5))) None None None None None None None None None =
   Inr [(''agentRegistry'', JStr ''eip155:11155111:0x1D''),
        (''agentId'', JNum (Num 42)),
        (''clientAddress'', JStr ''eip155:11155111:0xC1''),
        (''createdAt'', JStr ''2023-11-14T22:13:20.123Z''),
        (''feedbackAuth'', JStr []),
        (''score'', JNum (Num (- 5)))]"
  by (simp add: prepare_eval)

subsection \<open>Tags, content reference and the submission\<close>

lemma zeroBytes32_hexlify: "zeroBytes32 = hexlify (replicate 32 0)"
  by (simp add: zeroBytes32_def hexlify_def hex_byte_def hex_char_def)

lemma stringToBytes32_hexlify:
  "stringToBytes32 t = hexlify (take 32 (map of_char t) @ replicate (32 - length t) 0)"
proof (cases "t = []")
  case True
  then show ?thesis by (simp add: stringToBytes32_def zeroBytes32_hexlify)
next
  case False
  have "take (min (length t) 32) (map of_char t :: byte list) = take 32 (map of_char t)"
    by (cases "length t \<le> 32") (simp_all add: min_def)
  moreover have "32 - min (length t) 32 = 32 - length t"
    by (simp add: min_def)
  ultimately show ?thesis using False by (simp add: stringToBytes32_def Let_def)
qed

lemma storeContent_upload_fails:
  "cc_pinataJwt cc = Some jwt \<Longrightarrow> uploadJson w jwt file = Inl e \<Longrightarrow>
   storeContent rt w cc file = ([], zeroBytes32)"
  by (simp add: storeContent_def)

lemma prepareFeedback_any_extra:
  assumes "prepareFeedback rt createdAt agentId clientAddress chainId identityRegistryAddress
      score tags text capability name skill task context proofOfPayment extra = Inr file"
  shows "\<exists>file'. prepareFeedback rt createdAt agentId clientAddress chainId
      identityRegistryAddress score tags text capability name skill task context proofOfPayment
      extra' = Inr file'"
  using assms unfolding prepareFeedback_Inr by blast

lemma buildSubmission_any_extra:
  assumes "buildSubmission rt w fp cc sg = Inr (sub, idx, file)"
  shows "\<exists>sub' idx' file'.
      buildSubmission rt w (fp\<lparr>fp_extra := ex'\<rparr>) cc sg = Inr (sub', idx', file') \<and>
      sub_tag1 sub' = sub_tag1 sub \<and> sub_tag2 sub' = sub_tag2 sub"
proof -
  from assms obtain idAddr repAddr chainId tokenId wl prepared auth t authBytes where
    *: "registryAddresses (cc_chainId cc) = Inr (idAddr, repAddr)"
    "parseAgentId (fp_agentId fp) = Inr (chainId, tokenId)"
    "walletOf rt sg = Inr wl"
    "idx = resolveIndex (getLastIndex w) tokenId (address wl)"
    "prepareFeedback rt (nowIso w) (fp_agentId fp) (address wl) chainId idAddr (fp_score fp)
        (fp_tags fp) (fp_text fp) (fp_capability fp) (fp_name fp) (fp_skill fp) (fp_task fp)
        (fp_context fp) (fp_proofOfPayment fp) (fp_extra fp) = Inr prepared"
    "signFeedbackAuth rt (nowMs w) tokenId (address wl) idx chainId idAddr wl None = Inr auth"
    "BigInt tokenId = Inr t" "getBytes auth = Some authBytes"
    and tags: "sub_tag1 sub = stringToBytes32 (tagAt (fp_tags fp) 0)"
    "sub_tag2 sub = stringToBytes32 (tagAt (fp_tags fp) 1)"
    unfolding buildSubmission_Inr by force
  from *(5) obtain prepared' where
    "prepareFeedback rt (nowIso w) (fp_agentId fp) (address wl) chainId idAddr (fp_score fp)
        (fp_tags fp) (fp_text fp) (fp_capability fp) (fp_name fp) (fp_skill fp) (fp_task fp)
        (fp_context fp) (fp_proofOfPayment fp) ex' = Inr prepared'"
    using prepareFeedback_any_extra by blast
  with * tags show ?thesis
    by (simp add: buildSubmission_def Let_def split: prod.splits)
qed

lemma buildSubmission_any_upload:
  "(\<exists>x. buildSubmission rt (w\<lparr>uploadJson := u\<rparr>) fp cc sg = Inr x) \<longleftrightarrow>
   (\<exists>x. buildSubmission rt w fp cc sg = Inr x)"
  unfolding buildSubmission_def Let_def
  by (auto split: sum.splits prod.splits option.splits)

lemma buildSubmission_toy:
  "\<exists>sub idx file.
     buildSubmission toyRuntime toyWorld (toyParams\<lparr>fp_extra := ex\<rparr>) toyConfig
       (EthersWallet toyWallet) = Inr (sub, idx, file) \<and> idx = Num 1"
proof -
  have parse: "parseAgentId ''11155111:42'' = Inr (Num 11155111, Num 42)"
    by (simp add: parseAgentId_def parseInt_def is_space_def is_digit_def digits_val_def
        digit_val_def)
  obtain prepared where prepared:
    "prepareFeedback toyRuntime (nowIso toyWorld) ''11155111:42'' (address toyWallet)
       (Num 11155111) ''0x5f63c5784DFE968f06d5e6ba16cB6018163827Be'' (Some (Num 97))
       (Some [''helpful'', ''fast'']) None None None None None None None ex = Inr prepared"
    unfolding prepareFeedback_Inr by simp
  have idx: "resolveIndex (getLastIndex toyWorld) (Num 42) (address toyWallet) = Num 1"
    using BigInt_of_int [of 42] by (simp add: resolveIndex_def toyWorld_def)
  have auth:
    "signFeedbackAuth toyRuntime (nowMs toyWorld) (Num 42) (address toyWallet) (Num 1)
       (Num 11155111) ''0x5f63c5784DFE968f06d5e6ba16cB6018163827Be'' toyWallet None =
     Inr (hexlify [42, 4, 1, 128, 167, 42, 4, 7, 27])"
    unfolding signFeedbackAuth_def keccak256_hex_def signMessage_hex_def Let_def
    by (simp add: toyRuntime_def toyWallet_def toyWorld_def expiryOf_def BigInt_def
        is_integer_def getBytes_hexlify hexlify_concat)
  with parse prepared idx show ?thesis
    using BigInt_of_int [of 42]
    by (simp add: getBytes_hexlify buildSubmission_def toyParams_def toyConfig_def registryAddresses_sepolia
        walletOf_def Let_def split: prod.splits)
qed

text \<open>
  C5. Whether the pipeline reaches the transaction does not depend on what the upload
  does. When the upload to the content store fails, the transaction is sent with the
  empty string as content reference and 32 zero bytes as content hash, and
  \<open>giveFeedback\<close> is then the transaction and the wait for its receipt: when both
  succeed it returns the receipt's data with the empty content reference.
\<close>

theorem upload_failure_not_fatal:
  "((\<exists>x. buildSubmission rt (w\<lparr>uploadJson := u\<rparr>) fp cc sg = Inr x) \<longleftrightarrow>
    (\<exists>x. buildSubmission rt w fp cc sg = Inr x)) \<and>
   (buildSubmission rt w fp cc sg = Inr (sub, feedbackIndex, feedbackFile) \<and> cc_pinataJwt cc = Some jwt \<and>
    uploadJson w jwt feedbackFile = Inl e \<longrightarrow>
      sub_feedbackUri sub = [] \<and>
      sub_feedbackHash sub = hexlify (replicate 32 0) \<and>
      giveFeedback rt w fp cc sg = submitAndConfirm w sub feedbackIndex feedbackFile \<and>
      (\<forall>t blk. giveFeedbackTx w sub = Inr t \<and> wait t = Inr blk \<longrightarrow>
         giveFeedback rt w fp cc sg =
           Inr \<lparr> res_transactionHash = hash t, res_blockNumber = blk, res_feedbackIndex = feedbackIndex,
                 res_feedbackFile = feedbackFile, res_feedbackUri = [] \<rparr>))"
proof (intro conjI impI allI)
  show "(\<exists>x. buildSubmission rt (w\<lparr>uploadJson := u\<rparr>) fp cc sg = Inr x) \<longleftrightarrow>
    (\<exists>x. buildSubmission rt w fp cc sg = Inr x)"
    by (rule buildSubmission_any_upload)
next
  assume a: "buildSubmission rt w fp cc sg = Inr (sub, feedbackIndex, feedbackFile) \<and> cc_pinataJwt cc = Some jwt \<and>
    uploadJson w jwt feedbackFile = Inl e"
  then have store: "storeContent rt w cc feedbackFile = ([], zeroBytes32)"
    by (simp add: storeContent_upload_fails)
  from a have "sub_feedbackUri sub = fst (storeContent rt w cc feedbackFile)"
    "sub_feedbackHash sub = snd (storeContent rt w cc feedbackFile)"
    unfolding buildSubmission_Inr by auto
  with store show uri: "sub_feedbackUri sub = []"
    and "sub_feedbackHash sub = hexlify (replicate 32 0)"
    by (simp_all add: zeroBytes32_hexlify)
  from a show run: "giveFeedback rt w fp cc sg = submitAndConfirm w sub feedbackIndex feedbackFile"
    by (simp add: giveFeedback_def)
  fix t blk
  assume "giveFeedbackTx w sub = Inr t \<and> wait t = Inr blk"
  with run uri show "giveFeedback rt w fp cc sg =
           Inr \<lparr> res_transactionHash = hash t, res_blockNumber = blk, res_feedbackIndex = feedbackIndex,
                 res_feedbackFile = feedbackFile, res_feedbackUri = [] \<rparr>"
    by (simp add: submitAndConfirm_def)
qed

theorem upload_failure_not_fatal_witness:
  "\<exists>sub file.
     buildSubmission toyRuntime toyWorld toyParams toyConfig (EthersWallet toyWallet) =
       Inr (sub, Num 1, file) \<and>
     sub_feedbackUri sub = [] \<and>
     sub_feedbackHash sub = hexlify (replicate 32 0) \<and>
     giveFeedback toyRuntime toyWorld toyParams toyConfig (EthersWallet toyWallet) =
       Inr \<lparr> res_transactionHash = ''0xfeed'', res_blockNumber = 5, res_feedbackIndex = Num 1,
             res_feedbackFile = file, res_feedbackUri = [] \<rparr>"
proof -
  obtain sub fl where reach:
    "buildSubmission toyRuntime toyWorld toyParams toyConfig (EthersWallet toyWallet) =
       Inr (sub, Num 1, fl)"
    using buildSubmission_toy [of None] by (auto simp: toyParams_def)
  have jwt: "cc_pinataJwt toyConfig = Some ''jwt''"
    and up: "uploadJson toyWorld ''jwt'' fl = Inl (External ''pinata unreachable'')"
    and tx: "giveFeedbackTx toyWorld sub = Inr \<lparr> hash = ''0xfeed'', wait = Inr 5 \<rparr>"
    by (simp_all add: toyConfig_def toyWorld_def)
  from upload_failure_not_fatal
    [where rt = toyRuntime and w = toyWorld and u = "uploadJson toyWorld" and fp = toyParams
      and cc = toyConfig and sg = "EthersWallet toyWallet" and sub = sub and feedbackIndex = "Num 1"
      and feedbackFile = fl and jwt = "''jwt''" and e = "External ''pinata unreachable''"]
    reach jwt up
  have "sub_feedbackUri sub = []" "sub_feedbackHash sub = hexlify (replicate 32 0)"
    "\<forall>t blk. giveFeedbackTx toyWorld sub = Inr t \<and> wait t = Inr blk \<longrightarrow>
       giveFeedback toyRuntime toyWorld toyParams toyConfig (EthersWallet toyWallet) =
         Inr \<lparr> res_transactionHash = hash t, res_blockNumber = blk, res_feedbackIndex = Num 1,
               res_feedbackFile = fl, res_feedbackUri = [] \<rparr>"
    by blast+
  with tx reach show ?thesis by force
qed

lemma submitted_score:
  assumes "buildSubmission rt w fp cc sg = Inr (sub, idx, file)"
  shows "sub_score sub =
           (if obj_get file ''score'' \<noteq> JUndefined then toNumber rt (obj_get file ''score'')
            else Num 0)"
    and "obj_get file ''score'' =
           (case (case fp_extra fp of None \<Rightarrow> None | Some ex \<Rightarrow> map_of (rev ex) ''score'') of
              Some v \<Rightarrow> v
            | None \<Rightarrow> JNum (case fp_score fp of None \<Rightarrow> Num 0 | Some s \<Rightarrow> Math_round s))"
proof -
  from assms obtain idAddr repAddr chainId tokenId wl prepared auth t authBytes where
    "registryAddresses (cc_chainId cc) = Inr (idAddr, repAddr)"
    "parseAgentId (fp_agentId fp) = Inr (chainId, tokenId)"
    "walletOf rt sg = Inr wl"
    "idx = resolveIndex (getLastIndex w) tokenId (address wl)"
    and prep: "prepareFeedback rt (nowIso w) (fp_agentId fp) (address wl) chainId idAddr (fp_score fp)
        (fp_tags fp) (fp_text fp) (fp_capability fp) (fp_name fp) (fp_skill fp) (fp_task fp)
        (fp_context fp) (fp_proofOfPayment fp) (fp_extra fp) = Inr prepared"
    and "signFeedbackAuth rt (nowMs w) tokenId (address wl) idx chainId idAddr wl None = Inr auth"
    and fl: "file = obj_set ''feedbackAuth'' (JStr auth) prepared"
    and "BigInt tokenId = Inr t" "getBytes auth = Some authBytes"
    and sub: "sub = \<lparr> sub_tokenId = t,
              sub_score = (if obj_get file ''score'' \<noteq> JUndefined
                           then toNumber rt (obj_get file ''score'') else Num 0),
              sub_tag1 = stringToBytes32 (tagAt (fp_tags fp) 0),
              sub_tag2 = stringToBytes32 (tagAt (fp_tags fp) 1),
              sub_feedbackUri = fst (storeContent rt w cc file),
              sub_feedbackHash = snd (storeContent rt w cc file),
              sub_feedbackAuth = authBytes \<rparr>"
    unfolding buildSubmission_Inr by blast
  from sub have sc: "sub_score sub =
           (if obj_get file ''score'' \<noteq> JUndefined then toNumber rt (obj_get file ''score'')
            else Num 0)"
    by simp
  from sc show "sub_score sub =
           (if obj_get file ''score'' \<noteq> JUndefined then toNumber rt (obj_get file ''score'')
            else Num 0)" .
  from fl have "obj_get file ''score'' = obj_get prepared ''score''"
    by (simp add: obj_get_obj_set)
  then show "obj_get file ''score'' =
           (case (case fp_extra fp of None \<Rightarrow> None | Some ex \<Rightarrow> map_of (rev ex) ''score'') of
              Some v \<Rightarrow> v
            | None \<Rightarrow> JNum (case fp_score fp of None \<Rightarrow> Num 0 | Some s \<Rightarrow> Math_round s))"
    using prepareFeedback_score_field [OF prep] by simp
qed

text \<open>
  C10. In every run that reaches the transaction, the two tag fields sent are the bytes
  of the caller's first and second tag (an absent tag being the empty string), cut to 32
  bytes and padded with zero bytes to 32; the same two fields are sent whatever the
  \<open>extra\<close> map is, and the run reaches the transaction whatever it is. The score sent is
  \<open>Number\<close> of the merged record's \<open>score\<close>, so a numeric \<open>score\<close> entry of \<open>extra\<close> is
  the score sent; without \<open>extra\<close> it is the rounded score of the caller.
\<close>

theorem submitted_tags_ignore_extra:
  "buildSubmission rt w fp cc sg = Inr (sub, feedbackIndex, feedbackFile) \<longrightarrow>
     getBytes (sub_tag1 sub) =
       Some (take 32 (map of_char (tagAt (fp_tags fp) 0)) @
             replicate (32 - length (tagAt (fp_tags fp) 0)) 0) \<and>
     getBytes (sub_tag2 sub) =
       Some (take 32 (map of_char (tagAt (fp_tags fp) 1)) @
             replicate (32 - length (tagAt (fp_tags fp) 1)) 0) \<and>
     (\<forall>ex'. \<exists>sub' idx' file'.
        buildSubmission rt w (fp\<lparr>fp_extra := ex'\<rparr>) cc sg = Inr (sub', idx', file') \<and>
        sub_tag1 sub' = sub_tag1 sub \<and> sub_tag2 sub' = sub_tag2 sub) \<and>
     sub_score sub =
       (if obj_get feedbackFile ''score'' \<noteq> JUndefined
        then toNumber rt (obj_get feedbackFile ''score'') else Num 0) \<and>
     (\<forall>ex n. fp_extra fp = Some ex \<and> map_of (rev ex) ''score'' = Some (JNum n) \<longrightarrow>
        sub_score sub = n) \<and>
     (fp_extra fp = None \<longrightarrow>
        sub_score sub = (case fp_score fp of None \<Rightarrow> Num 0 | Some s \<Rightarrow> Math_round s))"
proof (intro impI conjI allI)
  assume reach: "buildSubmission rt w fp cc sg = Inr (sub, feedbackIndex, feedbackFile)"
  then have "sub_tag1 sub = stringToBytes32 (tagAt (fp_tags fp) 0)"
    "sub_tag2 sub = stringToBytes32 (tagAt (fp_tags fp) 1)"
    unfolding buildSubmission_Inr by auto
  then show "getBytes (sub_tag1 sub) =
       Some (take 32 (map of_char (tagAt (fp_tags fp) 0)) @
             replicate (32 - length (tagAt (fp_tags fp) 0)) 0)"
    and "getBytes (sub_tag2 sub) =
       Some (take 32 (map of_char (tagAt (fp_tags fp) 1)) @
             replicate (32 - length (tagAt (fp_tags fp) 1)) 0)"
    by (simp_all add: stringToBytes32_hexlify getBytes_hexlify)
  show "\<exists>sub' idx' file'.
        buildSubmission rt w (fp\<lparr>fp_extra := ex'\<rparr>) cc sg = Inr (sub', idx', file') \<and>
        sub_tag1 sub' = sub_tag1 sub \<and> sub_tag2 sub' = sub_tag2 sub" for ex'
    using buildSubmission_any_extra [OF reach] .
  note sc = submitted_score [OF reach]
  show "sub_score sub =
       (if obj_get feedbackFile ''score'' \<noteq> JUndefined
        then toNumber rt (obj_get feedbackFile ''score'') else Num 0)"
    by (rule sc(1))
  show "sub_score sub = n"
    if "fp_extra fp = Some ex \<and> map_of (rev ex) ''score'' = Some (JNum n)" for ex n
    using that sc by (simp add: toNumber_def)
  show "sub_score sub = (case fp_score fp of None \<Rightarrow> Num 0 | Some s \<Rightarrow> Math_round s)"
    if "fp_extra fp = None"
    using that sc by (simp add: toNumber_def)
qed

theorem submitted_tags_ignore_extra_witness:
  "\<exists>sub idx file.
     buildSubmission toyRuntime toyWorld
       (toyParams\<lparr>fp_extra := Some [(''tag1'', JStr ''spam''), (''score'', JNum (Num 99))]\<rparr>)
       toyConfig (EthersWallet toyWallet) = Inr (sub, idx, file) \<and>
     getBytes (sub_tag1 sub) = Some (map of_char ''helpful'' @ replicate 25 0) \<and>
     getBytes (sub_tag2 sub) = Some (map of_char ''fast'' @ replicate 28 0) \<and>
     sub_score sub = Num 99"
proof -
  let ?fp = "toyParams\<lparr>fp_extra := Some [(''tag1'', JStr ''spam''), (''score'', JNum (Num 99))]\<rparr>"
  obtain sub idx fl where reach:
    "buildSubmission toyRuntime toyWorld ?fp toyConfig (EthersWallet toyWallet) =
       Inr (sub, idx, fl)"
    using buildSubmission_toy by blast
  from submitted_tags_ignore_extra
    [where rt = toyRuntime and w = toyWorld and fp = ?fp and cc = toyConfig
      and sg = "EthersWallet toyWallet" and sub = sub and feedbackIndex = idx
      and feedbackFile = fl] reach
  have "getBytes (sub_tag1 sub) =
          Some (take 32 (map of_char (tagAt (fp_tags ?fp) 0)) @
                replicate (32 - length (tagAt (fp_tags ?fp) 0)) 0)"
    "getBytes (sub_tag2 sub) =
          Some (take 32 (map of_char (tagAt (fp_tags ?fp) 1)) @
                replicate (32 - length (tagAt (fp_tags ?fp) 1)) 0)"
    "\<forall>ex n. fp_extra ?fp = Some ex \<and> map_of (rev ex) ''score'' = Some (JNum n) \<longrightarrow>
        sub_score sub = n"
    by blast+
  then have "getBytes (sub_tag1 sub) = Some (map of_char ''helpful'' @ replicate 25 0)"
    "getBytes (sub_tag2 sub) = Some (map of_char ''fast'' @ replicate 28 0)"
    "sub_score sub = Num 99"
    by (simp_all add: toyParams_def tagAt_def)
  with reach show ?thesis by blast
qed

subsection \<open>Reading from the gateways\<close>









subsection \<open>The crawler\<close>















subsection \<open>The content hash\<close>

lemmas json_eval =
  sortedJson_def spec_canonicalJson_def Object_keys_def numberToString_def is_integer_def
  decimal.simps digit_char_def quote_def quote_char_def List.map_filter_def toyRuntime_def
  toyFile_def Let_def

lemma storeContent_hash:
  "cc_pinataJwt cc = Some jwt \<Longrightarrow> jwt \<noteq> [] \<Longrightarrow> uploadJson w jwt file = Inr cid \<Longrightarrow>
   sortedJson rt file = Some js \<Longrightarrow>
   storeContent rt w cc file = (''ipfs://'' @ cid, hexlify (keccak256 rt (map of_char js)))"
  by (simp add: storeContent_def)

lemma toyFile_prepared:
  "prepareFeedback toyRuntime ''2023-11-14T22:13:20.123Z'' ''11155111:42'' ''0xC1''
     (Num 11155111) ''0x1D'' (Some (Num 97)) None None None None None None
     (Some [(''session'', JStr session), (''score'', JNum (Num 5))]) None None =
   Inr (obj_set ''feedbackAuth'' (JStr []) (toyFile session))"
  by (simp add: prepare_eval toyFile_def)

text \<open>
  C2 at a record with a nested object. The array handed to \<open>JSON.stringify\<close> is the
  property list of the nested objects too, so of the context only the field named like
  a top-level key is serialized: two files that differ in the other field have the same
  serialization, hence the same content hash, and the serialization is not the one with
  every level sorted and no field lost.
\<close>

theorem sortedJson_drops_nested_fields:
  "sortedJson toyRuntime (toyFile ''s1'') =
     Some (''{\"agentId\":42,\"agentRegistry\":\"eip155:11155111:0x1D\",'' @
           ''\"clientAddress\":\"eip155:11155111:0xC1\",\"context\":{\"score\":5},'' @
           ''\"createdAt\":\"2023-11-14T22:13:20.123Z\",\"feedbackAuth\":\"0x2a\",\"score\":97}'') \<and>
   sortedJson toyRuntime (toyFile ''s2'') = sortedJson toyRuntime (toyFile ''s1'') \<and>
   spec_canonicalJson toyRuntime (toyFile ''s1'') =
     Some (''{\"agentId\":42,\"agentRegistry\":\"eip155:11155111:0x1D\",'' @
           ''\"clientAddress\":\"eip155:11155111:0xC1\",'' @
           ''\"context\":{\"score\":5,\"session\":\"s1\"},'' @
           ''\"createdAt\":\"2023-11-14T22:13:20.123Z\",\"feedbackAuth\":\"0x2a\",\"score\":97}'')"
  by (simp add: json_eval)

end
